theory Spec2Isabelle
  imports Complex_Main "HOL-Library.Log_Nat"
begin

section \<open>Go arithmetic\<close>

text \<open>
  The congestion controllers compute with Go's \<^verbatim>\<open>int64\<close> (\<^verbatim>\<open>protocol.ByteCount\<close>,
  \<^verbatim>\<open>protocol.PacketNumber\<close>, \<^verbatim>\<open>time.Duration\<close>, \<^verbatim>\<open>monotime.Time\<close>, and \<^verbatim>\<open>int\<close> on a
  64-bit platform), \<^verbatim>\<open>uint64\<close> (the connection counters and the Reno ack counter),
  \<^verbatim>\<open>float64\<close> and \<^verbatim>\<open>float32\<close>. Integers are modelled as \<open>int\<close> with the wrap-around
  written out at every operation; \<open>/\<close> and \<open>%\<close> truncate towards zero and a zero divisor
  is a run-time panic, which the callers check before they divide.
\<close>

definition i64 :: "int \<Rightarrow> int" where
  "i64 x = (x + 2 ^ 63) mod 2 ^ 64 - 2 ^ 63"

definition u64 :: "int \<Rightarrow> int" where
  "u64 x = x mod 2 ^ 64"

definition add64 :: "int \<Rightarrow> int \<Rightarrow> int" where
  "add64 a b = i64 (a + b)"

definition sub64 :: "int \<Rightarrow> int \<Rightarrow> int" where
  "sub64 a b = i64 (a - b)"

definition mul64 :: "int \<Rightarrow> int \<Rightarrow> int" where
  "mul64 a b = i64 (a * b)"

definition quot64 :: "int \<Rightarrow> int \<Rightarrow> int" where
  "quot64 a b = i64 (sgn a * sgn b * (\<bar>a\<bar> div \<bar>b\<bar>))"

definition rem64 :: "int \<Rightarrow> int \<Rightarrow> int" where
  "rem64 a b = sgn a * (\<bar>a\<bar> mod \<bar>b\<bar>)"

datatype panic =
  DecreasedMaxDatagramSize int int
  | IntegerDivideByZero
  | IndexOutOfRange

subsection \<open>Floating point\<close>

text \<open>
  A finite IEEE 754 value is the rational number it denotes. \<open>fl p q\<close> rounds the rational
  \<open>q\<close> to the nearest value with a \<open>p\<close>-bit significand, ties to the even significand:
  \<open>p = 53\<close> is \<^verbatim>\<open>float64\<close>, \<open>p = 24\<close> is \<^verbatim>\<open>float32\<close>. \<open>ilog2 q\<close> is the binary exponent of a
  positive \<open>q\<close> (\<open>bitlen\<close> counts the bits of an integer), \<open>pow2 (ilog2 q - p + 1)\<close> the
  unit in the last place of its \<open>p\<close>-bit neighbours. Every arithmetic operation is the
  exact operation followed by this rounding. The exponent range is not modelled: the
  operands below are 64-bit integers, decimal constants and their products and quotients,
  which stay inside the normal range of both formats. A division whose divisor can be zero
  is treated where it stands.
\<close>

definition pow2 :: "int \<Rightarrow> rat" where
  "pow2 e = (if 0 \<le> e then 2 ^ nat e else 1 / 2 ^ nat (- e))"

definition ilog2 :: "rat \<Rightarrow> int" where
  "ilog2 q = (if 1 \<le> q then bitlen \<lfloor>q\<rfloor> - 1 else - bitlen (\<lceil>1 / q\<rceil> - 1))"

definition round_even :: "rat \<Rightarrow> int" where
  "round_even q = (let n = \<lfloor>q\<rfloor>; r = q - of_int n in
     if r < 1/2 then n else if 1/2 < r then n + 1 else if even n then n else n + 1)"

definition fl_pos :: "nat \<Rightarrow> rat \<Rightarrow> rat" where
  "fl_pos p q = (let u = pow2 (ilog2 q - int p + 1) in of_int (round_even (q / u)) * u)"

definition fl :: "nat \<Rightarrow> rat \<Rightarrow> rat" where
  "fl p q = (if q = 0 then 0 else if 0 < q then fl_pos p q else - fl_pos p (- q))"

text \<open>Conversions of an integer and of an untyped constant, and the four operations.\<close>

definition f64 :: "int \<Rightarrow> rat" where
  "f64 x = fl 53 (of_int x)"

definition f64c :: "rat \<Rightarrow> rat" where
  "f64c q = fl 53 q"

definition f64add :: "rat \<Rightarrow> rat \<Rightarrow> rat" where
  "f64add a b = fl 53 (a + b)"

definition f64mul :: "rat \<Rightarrow> rat \<Rightarrow> rat" where
  "f64mul a b = fl 53 (a * b)"

definition f64div :: "rat \<Rightarrow> rat \<Rightarrow> rat" where
  "f64div a b = fl 53 (a / b)"

definition f32 :: "int \<Rightarrow> rat" where
  "f32 x = fl 24 (of_int x)"

definition f32c :: "rat \<Rightarrow> rat" where
  "f32c q = fl 24 q"

definition f32add :: "rat \<Rightarrow> rat \<Rightarrow> rat" where
  "f32add a b = fl 24 (a + b)"

definition f32sub :: "rat \<Rightarrow> rat \<Rightarrow> rat" where
  "f32sub a b = fl 24 (a - b)"

definition f32mul :: "rat \<Rightarrow> rat \<Rightarrow> rat" where
  "f32mul a b = fl 24 (a * b)"

definition f32div :: "rat \<Rightarrow> rat \<Rightarrow> rat" where
  "f32div a b = fl 24 (a / b)"

text \<open>
  The conversion of a float to \<^verbatim>\<open>int64\<close> truncates towards zero. For a value outside the
  range of \<^verbatim>\<open>int64\<close> Go leaves the result to the implementation; \<open>- 2 ^ 63\<close> is what amd64
  yields. No theorem below depends on that choice.
\<close>

definition trunc :: "rat \<Rightarrow> int" where
  "trunc q = (if 0 \<le> q then \<lfloor>q\<rfloor> else \<lceil>q\<rceil>)"

definition to_int64 :: "rat \<Rightarrow> int" where
  "to_int64 q = (let t = trunc q in if - (2 ^ 63) \<le> t \<and> t < 2 ^ 63 then t else - (2 ^ 63))"

subsection \<open>Durations and the RTT estimator\<close>

text \<open>
  \<^verbatim>\<open>time.Duration\<close> and \<^verbatim>\<open>monotime.Time\<close> count nanoseconds in an \<^verbatim>\<open>int64\<close>.
  \<open>Seconds\<close> is \<^verbatim>\<open>Duration.Seconds\<close> of the standard library:
  \<^verbatim>\<open>float64(d / Second) + float64(d % Second) / 1e9\<close>.
\<close>

definition Millisecond :: int where
  "Millisecond = 1000000"

definition Second :: int where
  "Second = 1000000000"

definition Seconds :: "int \<Rightarrow> rat" where
  "Seconds d = f64add (f64 (quot64 d Second)) (f64div (f64 (rem64 d Second)) (f64c 1000000000))"

text \<open>
  The RTT estimator (\<^verbatim>\<open>utils.RTTStats\<close>) is a read-only oracle of the controllers: the
  record holds what its three accessors return at the moment of a call.
\<close>

record RTTStats =
  SmoothedRTT :: int
  LatestRTT :: int
  MinRTT :: int

section \<open>The Hysteria sender (hysteria.go)\<close>

definition rttWindowSize :: int where
  "rttWindowSize = 10"

definition minStartBps :: int where
  "minStartBps = 1024 * 1024 div 8"

text \<open>
  The struct \<^verbatim>\<open>hysteriaSender\<close>. \<open>h_rttStats\<close> is what the pointer \<^verbatim>\<open>rttStats\<close> reads;
  \<open>rttHistory\<close> is the array of \<open>rttWindowSize\<close> durations.
\<close>

record hysteriaSender =
  h_rttStats :: RTTStats
  targetBps :: int
  currentBps :: int
  stableBps :: int
  maxDatagram :: int
  nextSendTime :: int
  rttHistory :: "int list"
  rttIdx :: int
  maxRTT :: int
  rttCount :: int

text \<open>\<^verbatim>\<open>NewHysteriaSender\<close>; \<open>now\<close> is what \<^verbatim>\<open>monotime.Now()\<close> returns.\<close>

definition NewHysteriaSender :: "RTTStats \<Rightarrow> int \<Rightarrow> int \<Rightarrow> int \<Rightarrow> hysteriaSender" where
  "NewHysteriaSender rtt initialMaxDatagramSize mbps0 now =
     (let mbps = (if mbps0 \<le> 0 then 10 else mbps0);
          target = quot64 (mul64 (mul64 mbps 1024) 1024) 8;
          initialBps = (if mbps > 100 then 100 * 1024 * 1024 div 8
                        else to_int64 (f64mul (f64 target) (f64c (6 / 10))));
          initialBps = (if initialBps < minStartBps then minStartBps else initialBps)
      in \<lparr> h_rttStats = rtt,
           targetBps = target,
           currentBps = initialBps,
           stableBps = initialBps,
           maxDatagram = initialMaxDatagramSize,
           nextSendTime = add64 now (- 100 * Millisecond),
           rttHistory = replicate (nat rttWindowSize) 0,
           rttIdx = 0,
           maxRTT = 0,
           rttCount = 0 \<rparr>)"

definition hysteriaSender_GetCongestionWindow :: "hysteriaSender \<Rightarrow> int" where
  "hysteriaSender_GetCongestionWindow h =
     (let rtt = SmoothedRTT (h_rttStats h) in
      if rtt = 0 then 1 * 1024 * 1024
      else
        let multiplier = (if rtt \<ge> 180 * Millisecond then f64c (11 / 10)
                          else if rtt \<ge> 100 * Millisecond then f64c (13 / 10)
                          else f64c (15 / 10));
            cwnd = to_int64 (f64mul (f64mul (f64 (currentBps h)) (Seconds rtt)) multiplier);
            minCwnd = mul64 32 (maxDatagram h)
        in if cwnd < minCwnd then minCwnd else cwnd)"

definition hysteriaSender_CanSend :: "hysteriaSender \<Rightarrow> int \<Rightarrow> bool" where
  "hysteriaSender_CanSend h bytesInFlight = (bytesInFlight < hysteriaSender_GetCongestionWindow h)"

text \<open>
  \<^verbatim>\<open>OnPacketSent\<close> divides by \<^verbatim>\<open>int64(h.currentBps)\<close>: a zero rate is a run-time panic.
  \<open>now\<close> is what \<^verbatim>\<open>monotime.Now()\<close> returns.
\<close>

definition hysteriaSender_OnPacketSent ::
  "hysteriaSender \<Rightarrow> int \<Rightarrow> int \<Rightarrow> int \<Rightarrow> int \<Rightarrow> bool \<Rightarrow> int \<Rightarrow> panic + hysteriaSender" where
  "hysteriaSender_OnPacketSent h sentTime bytesInFlight packetNumber bytes isRetransmittable now =
     (if currentBps h = 0 then Inl IntegerDivideByZero
      else
        let interval = quot64 (mul64 bytes Second) (currentBps h);
            h = (if nextSendTime h < now then h\<lparr>nextSendTime := add64 now interval\<rparr>
                 else h\<lparr>nextSendTime := add64 (nextSendTime h) interval\<rparr>);
            rtt = LatestRTT (h_rttStats h);
            limitTime = 20 * Millisecond;
            halfRTT = quot64 rtt 2;
            limitTime = (if halfRTT > limitTime then halfRTT else limitTime);
            limit = add64 now limitTime
        in Inr (if nextSendTime h > limit then h\<lparr>nextSendTime := limit\<rparr> else h))"

text \<open>
  \<^verbatim>\<open>updateRTTAndCheckJitter\<close>. The write \<^verbatim>\<open>h.rttHistory[h.rttIdx] = rtt\<close> panics when the
  index is outside the array.
\<close>

definition updateRTTAndCheckJitter :: "hysteriaSender \<Rightarrow> panic + hysteriaSender" where
  "updateRTTAndCheckJitter h =
     (let rtt = LatestRTT (h_rttStats h) in
      if rtt \<le> 0 then Inr h
      else if rttIdx h < 0 \<or> rttWindowSize \<le> rttIdx h then Inl IndexOutOfRange
      else
        let h = h\<lparr>rttHistory := (rttHistory h)[nat (rttIdx h) := rtt]\<rparr>;
            h = h\<lparr>rttIdx := rem64 (add64 (rttIdx h) 1) rttWindowSize\<rparr>;
            h = (if rtt > maxRTT h then h\<lparr>maxRTT := rtt\<rparr> else h);
            smoothed = SmoothedRTT (h_rttStats h)
        in if smoothed > 20 * Millisecond \<and> rtt > mul64 smoothed 2 then
             (let h = h\<lparr>currentBps := to_int64 (f64mul (f64 (currentBps h)) (f64c (85 / 100)))\<rparr>
              in Inr (if currentBps h < minStartBps then h\<lparr>currentBps := minStartBps\<rparr> else h))
           else Inr h)"

definition hysteriaSender_OnPacketAcked ::
  "hysteriaSender \<Rightarrow> int \<Rightarrow> int \<Rightarrow> int \<Rightarrow> int \<Rightarrow> panic + hysteriaSender" where
  "hysteriaSender_OnPacketAcked h0 pn ackedBytes priorInFlight eventTime =
     (case updateRTTAndCheckJitter h0 of
        Inl e \<Rightarrow> Inl e
      | Inr h \<Rightarrow>
          let rtt = SmoothedRTT (h_rttStats h);
              growFactor = (if rtt > 150 * Millisecond then f64c (125 / 100) else f64c (11 / 10));
              h = h\<lparr>rttCount := add64 (rttCount h) 1\<rparr>
          in Inr (if rttCount h \<ge> 4 then
                    (let h = h\<lparr>rttCount := 0\<rparr> in
                     if currentBps h < targetBps h then
                       (let h = h\<lparr>currentBps := to_int64 (f64mul (f64 (currentBps h)) growFactor)\<rparr>
                        in if currentBps h > targetBps h then h\<lparr>currentBps := targetBps h\<rparr> else h)
                     else h)
                  else h))"

text \<open>
  The test \<^verbatim>\<open>lossRate > threshold\<close> of \<^verbatim>\<open>OnCongestionEvent\<close>, where
  \<^verbatim>\<open>lossRate := float64(lostBytes) / float64(priorInFlight+1)\<close>. With a zero divisor IEEE
  division gives \<open>+Inf\<close> for a positive dividend (greater than every threshold), and
  \<open>NaN\<close> or \<open>-Inf\<close> otherwise (greater than none).
\<close>

definition lossRateExceeds :: "int \<Rightarrow> int \<Rightarrow> rat \<Rightarrow> bool" where
  "lossRateExceeds lostBytes inFlightPlus1 threshold =
     (if inFlightPlus1 = 0 then 0 < lostBytes
      else f64div (f64 lostBytes) (f64 inFlightPlus1) > threshold)"

definition hysteriaSender_OnCongestionEvent ::
  "hysteriaSender \<Rightarrow> int \<Rightarrow> int \<Rightarrow> int \<Rightarrow> hysteriaSender" where
  "hysteriaSender_OnCongestionEvent h pn lostBytes priorInFlight =
     (let rtt = SmoothedRTT (h_rttStats h);
          threshold = (if rtt < 50 * Millisecond then f64c (10 / 100)
                       else if rtt < 100 * Millisecond then f64c (15 / 100)
                       else if rtt < 180 * Millisecond then f64c (20 / 100)
                       else f64c (30 / 100))
      in if lossRateExceeds lostBytes (add64 priorInFlight 1) threshold then
           h\<lparr>currentBps := to_int64 (f64mul (f64 (stableBps h)) (f64c (75 / 100))),
             rttCount := - 2\<rparr>
         else h\<lparr>stableBps := currentBps h\<rparr>)"

definition hysteriaSender_OnRetransmissionTimeout :: "hysteriaSender \<Rightarrow> bool \<Rightarrow> hysteriaSender" where
  "hysteriaSender_OnRetransmissionTimeout h packetsRetransmitted = h\<lparr>currentBps := minStartBps\<rparr>"

definition hysteriaSender_MaybeExitSlowStart :: "hysteriaSender \<Rightarrow> hysteriaSender" where
  "hysteriaSender_MaybeExitSlowStart h = h"

definition hysteriaSender_SetMaxDatagramSize :: "hysteriaSender \<Rightarrow> int \<Rightarrow> hysteriaSender" where
  "hysteriaSender_SetMaxDatagramSize h s = h\<lparr>maxDatagram := s\<rparr>"

definition hysteriaSender_InSlowStart :: "hysteriaSender \<Rightarrow> bool" where
  "hysteriaSender_InSlowStart h = False"

definition hysteriaSender_InRecovery :: "hysteriaSender \<Rightarrow> bool" where
  "hysteriaSender_InRecovery h = False"

text \<open>
  A run of the sender: the calls of the send loop that change its state, in order, and
  the updates of the RTT estimator between them. A panic ends the run.
\<close>

datatype hysteria_call =
  H_OnPacketSent int int int int bool int
  | H_OnPacketAcked int int int int
  | H_OnCongestionEvent int int int
  | H_OnRetransmissionTimeout bool
  | H_MaybeExitSlowStart
  | H_SetMaxDatagramSize int
  | H_RTTUpdate RTTStats

fun hysteria_step :: "hysteriaSender \<Rightarrow> hysteria_call \<Rightarrow> panic + hysteriaSender" where
  "hysteria_step h (H_OnPacketSent t f pn b r now) = hysteriaSender_OnPacketSent h t f pn b r now"
| "hysteria_step h (H_OnPacketAcked pn a f t) = hysteriaSender_OnPacketAcked h pn a f t"
| "hysteria_step h (H_OnCongestionEvent pn l f) = Inr (hysteriaSender_OnCongestionEvent h pn l f)"
| "hysteria_step h (H_OnRetransmissionTimeout b) = Inr (hysteriaSender_OnRetransmissionTimeout h b)"
| "hysteria_step h H_MaybeExitSlowStart = Inr (hysteriaSender_MaybeExitSlowStart h)"
| "hysteria_step h (H_SetMaxDatagramSize s) = Inr (hysteriaSender_SetMaxDatagramSize h s)"
| "hysteria_step h (H_RTTUpdate r) = Inr (h\<lparr>h_rttStats := r\<rparr>)"

fun hysteria_run :: "hysteriaSender \<Rightarrow> hysteria_call list \<Rightarrow> panic + hysteriaSender" where
  "hysteria_run h [] = Inr h"
| "hysteria_run h (c # cs) =
     (case hysteria_step h c of Inl e \<Rightarrow> Inl e | Inr h' \<Rightarrow> hysteria_run h' cs)"

section \<open>What the sender takes from the rest of the stack\<close>

text \<open>
  The CUBIC sender uses declarations of the packages \<^verbatim>\<open>protocol\<close> and \<^verbatim>\<open>qlog\<close>, the
  hybrid slow start, the pacer and \<^verbatim>\<open>BandwidthFromDelta\<close>, whose sources are not among
  the files verified here. They are parameters of the model, collected in one record: the
  theorems hold for every value of them. \<open>'h\<close> is the state of
  \<^verbatim>\<open>HybridSlowStart\<close>, \<open>'p\<close> the state of the \<^verbatim>\<open>pacer\<close>; \<open>hss_zero\<close> and
  \<open>zeroCongestionState\<close> are the zero values of their Go types. The pacer reads the
  sender's bandwidth estimate through a closure; here the methods of the pacer receive the
  estimate as an argument.

  The curve's \<^verbatim>\<open>CongestionWindowAfterAck\<close> (cubic.go) computes with \<^verbatim>\<open>math.Cbrt\<close> and with
  a \<^verbatim>\<open>float32\<close> quotient whose divisor may be zero; it is a parameter as well, taking
  the curve, the acked bytes, the current window, the minimum RTT and the event time to
  the new window and curve.
\<close>

datatype CongestionState =
  CongestionStateSlowStart
  | CongestionStateCongestionAvoidance
  | CongestionStateRecovery
  | CongestionStateApplicationLimited

text \<open>The struct \<^verbatim>\<open>Cubic\<close>, without its clock, which no method shown reads.\<close>

record Cubic =
  numConnections :: int
  epoch :: int
  lastMaxCongestionWindow :: int
  ackedBytesCount :: int
  estimatedTCPcongestionWindow :: int
  originPointCongestionWindow :: int
  timeToOriginPoint :: int
  lastTargetCongestionWindow :: int

record ('h, 'p) collab =
  MaxCongestionWindowPackets :: int
  MaxByteCount :: int
  InvalidPacketNumber :: int
  InitialPacketSize :: int
  TimerGranularity :: int
  zeroCongestionState :: CongestionState
  BandwidthFromDelta :: "int \<Rightarrow> int \<Rightarrow> int"
  hss_zero :: 'h
  hss_Restart :: "'h \<Rightarrow> 'h"
  hss_OnPacketSent :: "'h \<Rightarrow> int \<Rightarrow> 'h"
  hss_OnPacketAcked :: "'h \<Rightarrow> int \<Rightarrow> 'h"
  hss_ShouldExitSlowStart :: "'h \<Rightarrow> int \<Rightarrow> int \<Rightarrow> int \<Rightarrow> bool \<times> 'h"
  newPacer :: 'p
  pacer_SentPacket :: "'p \<Rightarrow> int \<Rightarrow> int \<Rightarrow> int \<Rightarrow> 'p"
  pacer_SetMaxDatagramSize :: "'p \<Rightarrow> int \<Rightarrow> 'p"
  CongestionWindowAfterAck :: "Cubic \<Rightarrow> int \<Rightarrow> int \<Rightarrow> int \<Rightarrow> int \<Rightarrow> int \<times> Cubic"

section \<open>The CUBIC curve (cubic.go)\<close>

definition defaultNumConnections :: int where
  "defaultNumConnections = 1"

text \<open>
  \<^verbatim>\<open>beta()\<close>, \<^verbatim>\<open>betaLastMax()\<close> and \<^verbatim>\<open>alpha()\<close> compute in \<^verbatim>\<open>float32\<close>. With
  \<open>numConnections = 0\<close> they divide by zero; the sender never changes the number of
  connections from \<open>defaultNumConnections\<close>.
\<close>

definition Cubic_beta :: "Cubic \<Rightarrow> rat" where
  "Cubic_beta c =
     f32div (f32add (f32sub (f32 (numConnections c)) (f32c 1)) (f32c (7 / 10))) (f32 (numConnections c))"

definition Cubic_betaLastMax :: "Cubic \<Rightarrow> rat" where
  "Cubic_betaLastMax c =
     f32div (f32add (f32sub (f32 (numConnections c)) (f32c 1)) (f32c (85 / 100))) (f32 (numConnections c))"

definition Cubic_alpha :: "Cubic \<Rightarrow> rat" where
  "Cubic_alpha c =
     (let b = Cubic_beta c in
      f32div (f32mul (f32mul (f32mul (f32c 3) (f32 (numConnections c))) (f32 (numConnections c)))
                     (f32sub (f32c 1) b))
             (f32add (f32c 1) b))"

definition Cubic_Reset :: "Cubic \<Rightarrow> Cubic" where
  "Cubic_Reset c = c\<lparr> epoch := 0,
                       lastMaxCongestionWindow := 0,
                       ackedBytesCount := 0,
                       estimatedTCPcongestionWindow := 0,
                       originPointCongestionWindow := 0,
                       timeToOriginPoint := 0,
                       lastTargetCongestionWindow := 0 \<rparr>"

definition NewCubic :: Cubic where
  "NewCubic = Cubic_Reset \<lparr> numConnections = defaultNumConnections,
                             epoch = 0,
                             lastMaxCongestionWindow = 0,
                             ackedBytesCount = 0,
                             estimatedTCPcongestionWindow = 0,
                             originPointCongestionWindow = 0,
                             timeToOriginPoint = 0,
                             lastTargetCongestionWindow = 0 \<rparr>"

definition Cubic_OnApplicationLimited :: "Cubic \<Rightarrow> Cubic" where
  "Cubic_OnApplicationLimited c = c\<lparr>epoch := 0\<rparr>"

text \<open>
  \<^verbatim>\<open>CongestionWindowAfterPacketLoss\<close>; the constant \<^verbatim>\<open>maxDatagramSize\<close> of cubic.go is
  \<^verbatim>\<open>protocol.InitialPacketSize\<close>.
\<close>

definition Cubic_CongestionWindowAfterPacketLoss ::
  "('h, 'p) collab \<Rightarrow> Cubic \<Rightarrow> int \<Rightarrow> int \<times> Cubic" where
  "Cubic_CongestionWindowAfterPacketLoss D c currentCongestionWindow =
     (let c = (if add64 currentCongestionWindow (InitialPacketSize D) < lastMaxCongestionWindow c
               then c\<lparr>lastMaxCongestionWindow :=
                        to_int64 (f32mul (Cubic_betaLastMax c) (f32 currentCongestionWindow))\<rparr>
               else c\<lparr>lastMaxCongestionWindow := currentCongestionWindow\<rparr>);
          c = c\<lparr>epoch := 0\<rparr>
      in (to_int64 (f32mul (f32 currentCongestionWindow) (Cubic_beta c)), c))"

definition Cubic_SetNumConnections :: "Cubic \<Rightarrow> int \<Rightarrow> Cubic" where
  "Cubic_SetNumConnections c n = c\<lparr>numConnections := n\<rparr>"

section \<open>The CUBIC sender (cubic_sender.go)\<close>

definition maxBurstPackets :: int where
  "maxBurstPackets = 3"

definition minCongestionWindowPackets :: int where
  "minCongestionWindowPackets = 2"

text \<open>The constant \<^verbatim>\<open>initialCongestionWindow = 32\<close>; the field of the sender has the name.\<close>

definition const_initialCongestionWindow :: int where
  "const_initialCongestionWindow = 32"

definition minBandwidthLimit :: int where
  "minBandwidthLimit = 5 * 1024 * 1024"

text \<open>
  The connection's counters (\<^verbatim>\<open>utils.ConnectionStats\<close>, atomic \<^verbatim>\<open>uint64\<close> values): the
  three the sender touches.
\<close>

record ConnectionStats =
  BytesSent :: int
  BytesLost :: int
  PacketsLost :: int

text \<open>
  The struct \<^verbatim>\<open>cubicSender\<close>. \<open>rttStats\<close> and \<open>connStats\<close> hold what the two pointers
  reach. \<open>qlogger\<close> is \<open>None\<close> for a \<^verbatim>\<open>nil\<close> recorder, and otherwise the states recorded
  so far, oldest first.
\<close>

record ('h, 'p) cubicSender =
  hybridSlowStart :: 'h
  rttStats :: RTTStats
  connStats :: ConnectionStats
  cubic :: Cubic
  pacer :: 'p
  reno :: bool
  largestSentPacketNumber :: int
  largestAckedPacketNumber :: int
  largestSentAtLastCutback :: int
  lastCutbackExitedSlowstart :: bool
  congestionWindow :: int
  slowStartThreshold :: int
  numAckedPackets :: int
  initialCongestionWindow :: int
  initialMaxCongestionWindow :: int
  maxDatagramSize :: int
  lastState :: CongestionState
  qlogger :: "CongestionState list option"

definition newCubicSender ::
  "('h, 'p) collab \<Rightarrow> RTTStats \<Rightarrow> ConnectionStats \<Rightarrow> bool \<Rightarrow> int \<Rightarrow> int \<Rightarrow> int
     \<Rightarrow> CongestionState list option \<Rightarrow> ('h, 'p) cubicSender" where
  "newCubicSender D rtt stats isReno initialMaxDatagramSize initialCwnd initialMaxCwnd recorder =
     \<lparr> hybridSlowStart = hss_zero D,
       rttStats = rtt,
       connStats = stats,
       cubic = NewCubic,
       pacer = newPacer D,
       reno = isReno,
       largestSentPacketNumber = InvalidPacketNumber D,
       largestAckedPacketNumber = InvalidPacketNumber D,
       largestSentAtLastCutback = InvalidPacketNumber D,
       lastCutbackExitedSlowstart = False,
       congestionWindow = initialCwnd,
       slowStartThreshold = MaxByteCount D,
       numAckedPackets = 0,
       initialCongestionWindow = initialCwnd,
       initialMaxCongestionWindow = initialMaxCwnd,
       maxDatagramSize = initialMaxDatagramSize,
       lastState = (case recorder of None \<Rightarrow> zeroCongestionState D
                    | Some evs \<Rightarrow> CongestionStateSlowStart),
       qlogger = (case recorder of None \<Rightarrow> None
                  | Some evs \<Rightarrow> Some (evs @ [CongestionStateSlowStart])) \<rparr>"

definition NewCubicSender ::
  "('h, 'p) collab \<Rightarrow> RTTStats \<Rightarrow> ConnectionStats \<Rightarrow> int \<Rightarrow> bool
     \<Rightarrow> CongestionState list option \<Rightarrow> ('h, 'p) cubicSender" where
  "NewCubicSender D rtt stats initialMaxDatagramSize isReno recorder =
     newCubicSender D rtt stats isReno initialMaxDatagramSize
       (mul64 const_initialCongestionWindow initialMaxDatagramSize)
       (mul64 (MaxCongestionWindowPackets D) initialMaxDatagramSize) recorder"

definition maxCongestionWindow :: "('h, 'p) collab \<Rightarrow> ('h, 'p) cubicSender \<Rightarrow> int" where
  "maxCongestionWindow D c = mul64 (maxDatagramSize c) (MaxCongestionWindowPackets D)"

definition minCongestionWindow :: "('h, 'p) cubicSender \<Rightarrow> int" where
  "minCongestionWindow c = mul64 (maxDatagramSize c) minCongestionWindowPackets"

definition GetCongestionWindow :: "('h, 'p) cubicSender \<Rightarrow> int" where
  "GetCongestionWindow c = congestionWindow c"

definition CanSend :: "('h, 'p) cubicSender \<Rightarrow> int \<Rightarrow> bool" where
  "CanSend c bytesInFlight = (bytesInFlight < GetCongestionWindow c)"

definition InRecovery :: "('h, 'p) collab \<Rightarrow> ('h, 'p) cubicSender \<Rightarrow> bool" where
  "InRecovery D c =
     (largestAckedPacketNumber c \<noteq> InvalidPacketNumber D
      \<and> largestAckedPacketNumber c \<le> largestSentAtLastCutback c)"

definition InSlowStart :: "('h, 'p) cubicSender \<Rightarrow> bool" where
  "InSlowStart c = (GetCongestionWindow c < slowStartThreshold c)"

definition BandwidthEstimate :: "('h, 'p) collab \<Rightarrow> ('h, 'p) cubicSender \<Rightarrow> int" where
  "BandwidthEstimate D c =
     (let srtt = SmoothedRTT (rttStats c);
          srtt = (if srtt = 0 then TimerGranularity D else srtt)
      in BandwidthFromDelta D (GetCongestionWindow c) srtt)"

definition maybeQlogStateChange ::
  "('h, 'p) cubicSender \<Rightarrow> CongestionState \<Rightarrow> ('h, 'p) cubicSender" where
  "maybeQlogStateChange c new =
     (case qlogger c of
        None \<Rightarrow> c
      | Some evs \<Rightarrow>
          if new = lastState c then c
          else c\<lparr>qlogger := Some (evs @ [new]), lastState := new\<rparr>)"

definition OnPacketSent ::
  "('h, 'p) collab \<Rightarrow> ('h, 'p) cubicSender \<Rightarrow> int \<Rightarrow> int \<Rightarrow> int \<Rightarrow> int \<Rightarrow> bool
     \<Rightarrow> ('h, 'p) cubicSender" where
  "OnPacketSent D c sentTime bytesInFlight packetNumber bytes isRetransmittable =
     (let c = c\<lparr>pacer := pacer_SentPacket D (pacer c) (BandwidthEstimate D c) sentTime bytes\<rparr>
      in if \<not> isRetransmittable then c
         else c\<lparr>largestSentPacketNumber := packetNumber,
                hybridSlowStart := hss_OnPacketSent D (hybridSlowStart c) packetNumber\<rparr>)"

text \<open>
  \<^verbatim>\<open>MaybeExitSlowStart\<close> divides the window by the datagram size once the sender is known
  to be in slow start.
\<close>

definition MaybeExitSlowStart ::
  "('h, 'p) collab \<Rightarrow> ('h, 'p) cubicSender \<Rightarrow> panic + ('h, 'p) cubicSender" where
  "MaybeExitSlowStart D c =
     (if InSlowStart c then
        (if maxDatagramSize c = 0 then Inl IntegerDivideByZero
         else
           let (exit, h) = hss_ShouldExitSlowStart D (hybridSlowStart c)
                             (LatestRTT (rttStats c)) (MinRTT (rttStats c))
                             (quot64 (GetCongestionWindow c) (maxDatagramSize c));
               c = c\<lparr>hybridSlowStart := h\<rparr>
           in Inr (if exit then
                     maybeQlogStateChange (c\<lparr>slowStartThreshold := congestionWindow c\<rparr>)
                       CongestionStateCongestionAvoidance
                   else c))
      else Inr c)"

definition isCwndLimited :: "('h, 'p) cubicSender \<Rightarrow> int \<Rightarrow> bool" where
  "isCwndLimited c bytesInFlight =
     (let cwnd = GetCongestionWindow c in
      if bytesInFlight \<ge> cwnd then True
      else
        let availableBytes = sub64 cwnd bytesInFlight;
            slowStartLimited = (InSlowStart c \<and> bytesInFlight > quot64 cwnd 2)
        in slowStartLimited \<or> availableBytes \<le> mul64 maxBurstPackets (maxDatagramSize c))"

text \<open>
  \<^verbatim>\<open>maybeIncreaseCwnd\<close>. In Reno mode the ack counter is compared with the window in
  packets, a division by the datagram size.
\<close>

definition maybeIncreaseCwnd ::
  "('h, 'p) collab \<Rightarrow> ('h, 'p) cubicSender \<Rightarrow> int \<Rightarrow> int \<Rightarrow> int \<Rightarrow> int
     \<Rightarrow> panic + ('h, 'p) cubicSender" where
  "maybeIncreaseCwnd D c ackedPacketNumber ackedBytes priorInFlight eventTime =
     (if \<not> isCwndLimited c priorInFlight then
        Inr (maybeQlogStateChange (c\<lparr>cubic := Cubic_OnApplicationLimited (cubic c)\<rparr>)
               CongestionStateApplicationLimited)
      else if congestionWindow c \<ge> maxCongestionWindow D c then Inr c
      else if InSlowStart c then
        Inr (maybeQlogStateChange
               (c\<lparr>congestionWindow := add64 (congestionWindow c) (maxDatagramSize c)\<rparr>)
               CongestionStateSlowStart)
      else
        let c = maybeQlogStateChange c CongestionStateCongestionAvoidance in
        if reno c then
          (let c = c\<lparr>numAckedPackets := u64 (numAckedPackets c + 1)\<rparr> in
           if maxDatagramSize c = 0 then Inl IntegerDivideByZero
           else if numAckedPackets c \<ge> u64 (quot64 (congestionWindow c) (maxDatagramSize c)) then
             Inr (c\<lparr>congestionWindow := add64 (congestionWindow c) (maxDatagramSize c),
                      numAckedPackets := 0\<rparr>)
           else Inr c)
        else
          (let (w, cub) = CongestionWindowAfterAck D (cubic c) ackedBytes (congestionWindow c)
                            (MinRTT (rttStats c)) eventTime
           in Inr (c\<lparr>cubic := cub, congestionWindow := min (maxCongestionWindow D c) w\<rparr>)))"

definition OnPacketAcked ::
  "('h, 'p) collab \<Rightarrow> ('h, 'p) cubicSender \<Rightarrow> int \<Rightarrow> int \<Rightarrow> int \<Rightarrow> int
     \<Rightarrow> panic + ('h, 'p) cubicSender" where
  "OnPacketAcked D c0 ackedPacketNumber ackedBytes priorInFlight eventTime =
     (let c = c0\<lparr>largestAckedPacketNumber := max ackedPacketNumber (largestAckedPacketNumber c0)\<rparr>
      in if InRecovery D c then Inr c
         else
           case maybeIncreaseCwnd D c ackedPacketNumber ackedBytes priorInFlight eventTime of
             Inl e \<Rightarrow> Inl e
           | Inr c \<Rightarrow>
               Inr (if InSlowStart c
                    then c\<lparr>hybridSlowStart :=
                             hss_OnPacketAcked D (hybridSlowStart c) ackedPacketNumber\<rparr>
                    else c))"

text \<open>
  \<^verbatim>\<open>applyMinRateProtection\<close>: the smallest window is the larger of the window that sustains
  \<open>minBandwidthLimit\<close> over one smoothed RTT (100 ms when the estimator has none) and the
  minimum window.
\<close>

definition minRateCwnd :: "int \<Rightarrow> int" where
  "minRateCwnd srtt0 =
     (let srtt = (if srtt0 \<le> 0 then 100 * Millisecond else srtt0)
      in to_int64 (f64div (f64mul (f64 minBandwidthLimit) (Seconds srtt)) (f64c 8)))"

definition applyMinRateProtection :: "('h, 'p) cubicSender \<Rightarrow> ('h, 'p) cubicSender" where
  "applyMinRateProtection c =
     (let minCwnd = minRateCwnd (SmoothedRTT (rttStats c));
          absoluteMin = minCongestionWindow c;
          minCwnd = (if minCwnd < absoluteMin then absoluteMin else minCwnd)
      in if congestionWindow c < minCwnd then c\<lparr>congestionWindow := minCwnd\<rparr> else c)"

text \<open>
  The loss tolerance of \<^verbatim>\<open>OnCongestionEvent\<close>:
  \<^verbatim>\<open>totalSent > 0 && float64(totalLost)/float64(totalSent) < lossToleranceThreshold\<close>.
\<close>

definition belowLossTolerance :: "ConnectionStats \<Rightarrow> bool" where
  "belowLossTolerance st =
     (let totalSent = BytesSent st; totalLost = BytesLost st
      in totalSent > 0 \<and> f64div (f64 totalLost) (f64 totalSent) < f64c (10 / 100))"

definition OnCongestionEvent ::
  "('h, 'p) collab \<Rightarrow> ('h, 'p) cubicSender \<Rightarrow> int \<Rightarrow> int \<Rightarrow> int \<Rightarrow> ('h, 'p) cubicSender" where
  "OnCongestionEvent D c0 packetNumber lostBytes priorInFlight =
     (let c = c0\<lparr>connStats := (connStats c0)\<lparr>PacketsLost := u64 (PacketsLost (connStats c0) + 1)\<rparr>\<rparr>;
          c = c\<lparr>connStats := (connStats c)\<lparr>BytesLost := u64 (BytesLost (connStats c) + u64 lostBytes)\<rparr>\<rparr>
      in if packetNumber \<le> largestSentAtLastCutback c then c
         else if belowLossTolerance (connStats c) then c
         else
           let c = c\<lparr>lastCutbackExitedSlowstart := InSlowStart c\<rparr>;
               c = maybeQlogStateChange c CongestionStateRecovery;
               c = (if reno c then
                      c\<lparr>congestionWindow := to_int64 (f64mul (f64 (congestionWindow c)) (f64c (7 / 10)))\<rparr>
                    else
                      let (w, cub) = Cubic_CongestionWindowAfterPacketLoss D (cubic c) (congestionWindow c)
                      in c\<lparr>congestionWindow := w, cubic := cub\<rparr>);
               c = applyMinRateProtection c
           in c\<lparr>slowStartThreshold := congestionWindow c,
                largestSentAtLastCutback := largestSentPacketNumber c,
                numAckedPackets := 0\<rparr>)"

definition OnRetransmissionTimeout ::
  "('h, 'p) collab \<Rightarrow> ('h, 'p) cubicSender \<Rightarrow> bool \<Rightarrow> ('h, 'p) cubicSender" where
  "OnRetransmissionTimeout D c0 packetsRetransmitted =
     (let c = c0\<lparr>largestSentAtLastCutback := InvalidPacketNumber D\<rparr>
      in if \<not> packetsRetransmitted then c
         else
           let c = c\<lparr>hybridSlowStart := hss_Restart D (hybridSlowStart c)\<rparr>;
               c = c\<lparr>cubic := Cubic_Reset (cubic c)\<rparr>;
               c = c\<lparr>slowStartThreshold := quot64 (congestionWindow c) 2\<rparr>;
               c = c\<lparr>congestionWindow := minCongestionWindow c\<rparr>
           in applyMinRateProtection c)"

definition OnConnectionMigration ::
  "('h, 'p) collab \<Rightarrow> ('h, 'p) cubicSender \<Rightarrow> ('h, 'p) cubicSender" where
  "OnConnectionMigration D c =
     c\<lparr> hybridSlowStart := hss_Restart D (hybridSlowStart c),
        largestSentPacketNumber := InvalidPacketNumber D,
        largestAckedPacketNumber := InvalidPacketNumber D,
        largestSentAtLastCutback := InvalidPacketNumber D,
        lastCutbackExitedSlowstart := False,
        cubic := Cubic_Reset (cubic c),
        numAckedPackets := 0,
        congestionWindow := initialCongestionWindow c,
        slowStartThreshold := initialMaxCongestionWindow c \<rparr>"

definition SetMaxDatagramSize ::
  "('h, 'p) collab \<Rightarrow> ('h, 'p) cubicSender \<Rightarrow> int \<Rightarrow> panic + ('h, 'p) cubicSender" where
  "SetMaxDatagramSize D c0 s =
     (if s < maxDatagramSize c0 then Inl (DecreasedMaxDatagramSize (maxDatagramSize c0) s)
      else
        let cwndIsMinCwnd = (congestionWindow c0 = minCongestionWindow c0);
            c = c0\<lparr>maxDatagramSize := s\<rparr>;
            c = (if cwndIsMinCwnd then c\<lparr>congestionWindow := minCongestionWindow c\<rparr> else c)
        in Inr (c\<lparr>pacer := pacer_SetMaxDatagramSize D (pacer c) s\<rparr>))"

text \<open>
  A run of the sender: the calls of the send loop that change its state, in order, and
  between them the updates of the RTT estimator and of the connection's counters by their
  owners. A panic ends the run.
\<close>

datatype cubic_call =
  C_OnPacketSent int int int int bool
  | C_OnPacketAcked int int int int
  | C_OnCongestionEvent int int int
  | C_OnRetransmissionTimeout bool
  | C_OnConnectionMigration
  | C_MaybeExitSlowStart
  | C_SetMaxDatagramSize int
  | C_RTTUpdate RTTStats
  | C_StatsUpdate ConnectionStats

fun cubic_step ::
  "('h, 'p) collab \<Rightarrow> ('h, 'p) cubicSender \<Rightarrow> cubic_call \<Rightarrow> panic + ('h, 'p) cubicSender" where
  "cubic_step D c (C_OnPacketSent t f pn b r) = Inr (OnPacketSent D c t f pn b r)"
| "cubic_step D c (C_OnPacketAcked pn a f t) = OnPacketAcked D c pn a f t"
| "cubic_step D c (C_OnCongestionEvent pn l f) = Inr (OnCongestionEvent D c pn l f)"
| "cubic_step D c (C_OnRetransmissionTimeout b) = Inr (OnRetransmissionTimeout D c b)"
| "cubic_step D c C_OnConnectionMigration = Inr (OnConnectionMigration D c)"
| "cubic_step D c C_MaybeExitSlowStart = MaybeExitSlowStart D c"
| "cubic_step D c (C_SetMaxDatagramSize s) = SetMaxDatagramSize D c s"
| "cubic_step D c (C_RTTUpdate r) = Inr (c\<lparr>rttStats := r\<rparr>)"
| "cubic_step D c (C_StatsUpdate st) = Inr (c\<lparr>connStats := st\<rparr>)"

fun cubic_run ::
  "('h, 'p) collab \<Rightarrow> ('h, 'p) cubicSender \<Rightarrow> cubic_call list \<Rightarrow> panic + ('h, 'p) cubicSender" where
  "cubic_run D c [] = Inr c"
| "cubic_run D c (x # xs) =
     (case cubic_step D c x of Inl e \<Rightarrow> Inl e | Inr c' \<Rightarrow> cubic_run D c' xs)"

text \<open>
  An instance of the parameters for evaluating the model: the constants with the values
  of quic-go's \<^verbatim>\<open>protocol\<close> package, a hybrid slow start and a pacer without state, a
  curve whose ack step keeps the window.
\<close>

definition example_collab :: "(unit, unit) collab" where
  "example_collab =
     \<lparr> MaxCongestionWindowPackets = 10000,
       MaxByteCount = 2 ^ 62 - 1,
       InvalidPacketNumber = - 1,
       InitialPacketSize = 1280,
       TimerGranularity = Millisecond,
       zeroCongestionState = CongestionStateSlowStart,
       BandwidthFromDelta = (\<lambda>bytes delta. 0),
       hss_zero = (),
       hss_Restart = (\<lambda>h. h),
       hss_OnPacketSent = (\<lambda>h pn. h),
       hss_OnPacketAcked = (\<lambda>h pn. h),
       hss_ShouldExitSlowStart = (\<lambda>h latest minimum cwnd. (False, h)),
       newPacer = (),
       pacer_SentPacket = (\<lambda>p bw t bytes. p),
       pacer_SetMaxDatagramSize = (\<lambda>p s. p),
       CongestionWindowAfterAck = (\<lambda>cub acked cwnd delayMin t. (cwnd, cub)) \<rparr>"

section \<open>Invariants\<close>

text \<open>
  What every Hysteria sender built by \<open>NewHysteriaSender\<close> from a bandwidth below
  \<open>2 ^ 43\<close> Mbps satisfies throughout a run: the rates are not negative and not above the
  target, the target is at least \<open>minStartBps\<close>, the penalty counter is between \<open>- 2\<close> and
  \<open>3\<close>, and the index of the RTT ring is inside the array.
\<close>

definition hysteria_inv :: "hysteriaSender \<Rightarrow> bool" where
  "hysteria_inv h =
     (0 \<le> currentBps h \<and> currentBps h \<le> targetBps h
      \<and> 0 \<le> stableBps h \<and> stableBps h \<le> targetBps h
      \<and> minStartBps \<le> targetBps h \<and> targetBps h < 2 ^ 60
      \<and> - 2 \<le> rttCount h \<and> rttCount h \<le> 3
      \<and> 0 \<le> rttIdx h \<and> rttIdx h < rttWindowSize)"


section \<open>Lemmas: integer arithmetic\<close>

lemma i64_id: "- (2 ^ 63) \<le> x \<Longrightarrow> x < 2 ^ 63 \<Longrightarrow> i64 x = x"
  by (simp add: i64_def)

lemma i64_range: "- (2 ^ 63) \<le> i64 x \<and> i64 x < 2 ^ 63"
proof -
  have "0 \<le> (x + 9223372036854775808) mod (18446744073709551616 :: int)"
       "(x + 9223372036854775808) mod (18446744073709551616 :: int) < 18446744073709551616"
    by simp_all
  then show ?thesis unfolding i64_def by simp
qed

lemma u64_id: "0 \<le> x \<Longrightarrow> x < 2 ^ 64 \<Longrightarrow> u64 x = x"
  by (simp add: u64_def)

lemma quot64_nonneg: "0 \<le> a \<Longrightarrow> a < 2 ^ 63 \<Longrightarrow> 0 < b \<Longrightarrow> quot64 a b = a div b"
proof -
  assume a: "0 \<le> a" "a < 2 ^ 63" and b: "0 < b"
  have s: "sgn a * sgn b * (\<bar>a\<bar> div \<bar>b\<bar>) = a div b"
    using a b by (cases "a = 0") (simp_all add: sgn_if)
  have "0 \<le> a div b" using a b by (simp add: pos_imp_zdiv_nonneg_iff)
  moreover have "a div b \<le> a" using zdiv_mono2[of a 1 b] a b by simp
  ultimately show ?thesis unfolding quot64_def s using a by (intro i64_id) linarith+
qed

section \<open>Lemmas: rounding\<close>

lemma pow2_powi: "pow2 e = 2 powi e"
  by (simp add: pow2_def power_int_def field_simps)

lemma pow2_pos: "0 < pow2 e"
  by (simp add: pow2_powi)

lemma pow2_sub: "pow2 (e - int k) = pow2 e / 2 ^ k"
  by (simp add: pow2_powi power_int_diff)

lemma pow2_neg_nat: "pow2 (- int k) = 1 / 2 ^ k"
  by (simp add: pow2_powi power_int_minus divide_inverse)

lemma pow2_ilog2_le: assumes "0 < q" shows "pow2 (ilog2 q) \<le> q"
proof (cases "1 \<le> q")
  case True
  define n where "n = \<lfloor>q\<rfloor>"
  have npos: "0 < n" using True by (simp add: n_def)
  have b1: "1 \<le> bitlen n" using npos bitlen_eq_zero_iff[of n] bitlen_nonneg[of n] by linarith
  have "ilog2 q = bitlen n - 1" using True by (simp only: ilog2_def n_def if_True)
  then have "pow2 (ilog2 q) = 2 ^ nat (bitlen n - 1)" using b1 by (simp add: pow2_def)
  also have "\<dots> = of_int (2 ^ nat (bitlen n - 1))" by simp
  also have "\<dots> \<le> of_int n" using bitlen_bounds[OF npos] by (simp only: of_int_le_iff)
  also have "\<dots> \<le> q" by (simp add: n_def)
  finally show ?thesis .
next
  case False
  define m where "m = \<lceil>1 / q\<rceil> - 1"
  have "1 < 1 / q" using False assms by simp
  then have "1 < \<lceil>1 / q\<rceil>" by (simp only: less_ceiling_iff of_int_1)
  then have mpos: "0 < m" unfolding m_def by linarith
  have b1: "1 \<le> bitlen m" using mpos bitlen_eq_zero_iff[of m] bitlen_nonneg[of m] by linarith
  have "ilog2 q = - bitlen m" using False by (simp only: ilog2_def m_def if_False)
  then have e: "pow2 (ilog2 q) = 1 / 2 ^ nat (bitlen m)" using b1 by (simp add: pow2_def)
  have c: "\<lceil>1 / q\<rceil> \<le> 2 ^ nat (bitlen m)" using bitlen_bounds[OF mpos] unfolding m_def by linarith
  have "1 / q \<le> of_int \<lceil>1 / q\<rceil>" by (rule le_of_int_ceiling)
  also have "\<dots> \<le> of_int (2 ^ nat (bitlen m))" using c by (simp only: of_int_le_iff)
  also have "\<dots> = 2 ^ nat (bitlen m)" by simp
  finally have "1 / q \<le> 2 ^ nat (bitlen m)" .
  then have "1 \<le> 2 ^ nat (bitlen m) * q" using assms by (simp add: pos_divide_le_eq)
  then have "1 / 2 ^ nat (bitlen m) \<le> q" by (simp add: pos_divide_le_eq mult.commute)
  then show ?thesis by (simp add: e)
qed

lemma round_even_err: "\<bar>of_int (round_even x) - x\<bar> \<le> 1 / 2"
proof -
  have "of_int \<lfloor>x\<rfloor> \<le> x" "x < of_int \<lfloor>x\<rfloor> + 1" by linarith+
  then show ?thesis by (auto simp: round_even_def Let_def)
qed

lemma round_even_nonneg: "0 \<le> x \<Longrightarrow> 0 \<le> round_even x"
  by (auto simp: round_even_def Let_def)

lemma fl_pos_err: assumes "0 < q" "0 < p" shows "\<bar>fl_pos p q - q\<bar> \<le> q / 2 ^ p"
proof -
  define u where "u = pow2 (ilog2 q - int p + 1)"
  have upos: "0 < u" by (simp add: u_def pow2_pos)
  obtain k where p: "p = Suc k" using assms by (cases p) auto
  have "ilog2 q - int p + 1 = ilog2 q - int k" by (simp add: p)
  then have u: "u = pow2 (ilog2 q) / 2 ^ k" by (simp only: u_def pow2_sub)
  have "fl_pos p q = of_int (round_even (q / u)) * u"
    by (simp add: fl_pos_def u_def Let_def)
  moreover have "q = (q / u) * u" using upos by simp
  ultimately have "fl_pos p q - q = (of_int (round_even (q / u)) - q / u) * u"
    by (metis left_diff_distrib)
  then have "\<bar>fl_pos p q - q\<bar> = \<bar>of_int (round_even (q / u)) - q / u\<bar> * u"
    using upos by (simp add: abs_mult)
  also have "\<dots> \<le> (1 / 2) * u"
    using round_even_err[of "q / u"] upos by (intro mult_right_mono) auto
  also have "\<dots> = pow2 (ilog2 q) / 2 ^ p"
    by (simp add: u p)
  also have "\<dots> \<le> q / 2 ^ p"
    using pow2_ilog2_le[OF assms(1)] by (simp add: divide_right_mono)
  finally show ?thesis .
qed

lemma fl_err: "0 < p \<Longrightarrow> \<bar>fl p q - q\<bar> \<le> \<bar>q\<bar> / 2 ^ p"
  using fl_pos_err[of q p] fl_pos_err[of "- q" p]
  by (auto simp: fl_def)

lemma fl_pos_nonneg: "0 < q \<Longrightarrow> 0 \<le> fl_pos p q"
  using pow2_pos[of "ilog2 q - int p + 1"]
  by (simp add: fl_pos_def Let_def round_even_nonneg)

lemma fl_nonneg: "0 \<le> q \<Longrightarrow> 0 \<le> fl p q"
  by (auto simp: fl_def fl_pos_nonneg)


lemma fl_upper: assumes "0 < p" "0 \<le> q" shows "fl p q \<le> q * (1 + 1 / 2 ^ p)"
proof -
  have "fl p q - q \<le> \<bar>fl p q - q\<bar>" by simp
  also have "\<dots> \<le> \<bar>q\<bar> / 2 ^ p" by (rule fl_err[OF assms(1)])
  also have "\<dots> = q / 2 ^ p" using assms(2) by simp
  finally show ?thesis by (simp add: algebra_simps)
qed

lemma fl_lower: assumes "0 < p" "0 \<le> q" shows "q * (1 - 1 / 2 ^ p) \<le> fl p q"
proof -
  have "q - fl p q \<le> \<bar>fl p q - q\<bar>" by simp
  also have "\<dots> \<le> \<bar>q\<bar> / 2 ^ p" by (rule fl_err[OF assms(1)])
  also have "\<dots> = q / 2 ^ p" using assms(2) by simp
  finally show ?thesis by (simp add: algebra_simps)
qed

lemma round_even_of_int: "round_even (of_int m) = m"
  by (simp add: round_even_def)

lemma fl_of_int_exact:
  assumes "0 < p" "\<bar>n\<bar> < 2 ^ p" shows "fl p (of_int n) = of_int n"
proof -
  have pos: "fl_pos p (of_int m) = of_int m" if m: "0 < m" "m < 2 ^ p" for m :: int
  proof -
    have b1: "1 \<le> bitlen m" using m(1) bitlen_eq_zero_iff[of m] bitlen_nonneg[of m] by linarith
    have "2 ^ nat (bitlen m - 1) \<le> m" using bitlen_bounds[OF m(1)] by simp
    with m(2) have "(2::int) ^ nat (bitlen m - 1) < 2 ^ p" by linarith
    then have "nat (bitlen m - 1) < p" by (simp add: power_strict_increasing_iff)
    then have bp: "bitlen m \<le> int p" by linarith
    define k where "k = nat (int p - bitlen m)"
    have e: "ilog2 (of_int m) = bitlen m - 1" using m(1) by (simp add: ilog2_def)
    have "ilog2 (of_int m) - int p + 1 = - int k" using bp by (simp add: e k_def)
    then have u: "pow2 (ilog2 (of_int m) - int p + 1) = 1 / 2 ^ k" by (simp only: pow2_neg_nat)
    have "of_int m / (1 / 2 ^ k) = (of_int (m * 2 ^ k) :: rat)" by simp
    then have "round_even (of_int m / (1 / 2 ^ k)) = m * 2 ^ k" by (simp only: round_even_of_int)
    then show ?thesis unfolding fl_pos_def Let_def u by simp
  qed
  show ?thesis
  proof (cases "n = 0")
    case True then show ?thesis by (simp add: fl_def)
  next
    case False
    show ?thesis
    proof (cases "0 < n")
      case True
      with pos[of n] assms(2) show ?thesis by (simp add: fl_def)
    next
      case neg: False
      with False have "0 < - n" "- n < 2 ^ p" using assms(2) by auto
      from pos[OF this] neg False show ?thesis by (simp add: fl_def)
    qed
  qed
qed

lemma floor_rat_numeral_div: "\<lfloor>(numeral a :: rat) / numeral b\<rfloor> = numeral a div numeral b"
  using floor_divide_of_int_eq[of "numeral a" "numeral b", where ?'a = rat] by simp

lemma ceiling_rat_numeral_div: "\<lceil>(numeral a :: rat) / numeral b\<rceil> = - (- numeral a div numeral b)"
  using ceiling_divide_eq_div[of "numeral a" "numeral b", where ?'a = rat] by simp

lemmas fl_eval = fl_def fl_pos_def ilog2_def pow2_def round_even_def Let_def compute_bitlen
  floor_rat_numeral_div ceiling_rat_numeral_div

lemma f64c_010: "f64c (10 / 100) = 3602879701896397 / 36028797018963968"
  by (simp add: f64c_def fl_eval)

lemma f64c_06: "f64c (6 / 10) = 5404319552844595 / 9007199254740992"
  by (simp add: f64c_def fl_eval)

lemma f64c_07: "f64c (7 / 10) = 3152519739159347 / 4503599627370496"
  by (simp add: f64c_def fl_eval)

lemma f64c_075: "f64c (75 / 100) = 3 / 4"
  by (simp add: f64c_def fl_eval)

lemma f64c_085: "f64c (85 / 100) = 7656119366529843 / 9007199254740992"
  by (simp add: f64c_def fl_eval)

lemma f64c_11: "f64c (11 / 10) = 2476979795053773 / 2251799813685248"
  by (simp add: f64c_def fl_eval)

lemma f64c_125: "f64c (125 / 100) = 5 / 4"
  by (simp add: f64c_def fl_eval)

lemma f64c_norm:
  "f64c (1 / 10) = 3602879701896397 / 36028797018963968"
  "f64c (3 / 5) = 5404319552844595 / 9007199254740992"
  "f64c (3 / 4) = 3 / 4"
  "f64c (17 / 20) = 7656119366529843 / 9007199254740992"
  "f64c (5 / 4) = 5 / 4"
  using f64c_010 f64c_06 f64c_075 f64c_085 f64c_125 by simp_all

lemma fl_mul_bounds:
  assumes "0 < p" "0 \<le> x" "0 \<le> c"
  shows "0 \<le> fl p (fl p x * c)" and "fl p (fl p x * c) \<le> x * c * (1 + 1 / 2 ^ p) ^ 2"
proof -
  let ?e = "1 + 1 / (2::rat) ^ p"
  have e: "0 \<le> ?e" by simp
  have a0: "0 \<le> fl p x" using assms(2) by (rule fl_nonneg)
  have a1: "fl p x \<le> x * ?e" using assms(1,2) by (rule fl_upper)
  have m0: "0 \<le> fl p x * c" using a0 assms(3) by simp
  show "0 \<le> fl p (fl p x * c)" using m0 by (rule fl_nonneg)
  have "fl p (fl p x * c) \<le> (fl p x * c) * ?e" using assms(1) m0 by (rule fl_upper)
  also have "\<dots> \<le> ((x * ?e) * c) * ?e"
    using a1 assms(3) e by (intro mult_right_mono) auto
  also have "\<dots> = x * c * ?e ^ 2" by (simp add: power2_eq_square)
  finally show "fl p (fl p x * c) \<le> x * c * ?e ^ 2" .
qed

lemma to_int64_nonneg: "0 \<le> q \<Longrightarrow> q < 2 ^ 63 \<Longrightarrow> to_int64 q = \<lfloor>q\<rfloor>"
proof -
  assume q: "0 \<le> q" "q < 2 ^ 63"
  have "0 \<le> \<lfloor>q\<rfloor>" using q(1) by simp
  moreover have "\<lfloor>q\<rfloor> < 2 ^ 63" using q(2) by (simp add: floor_less_iff)
  ultimately show ?thesis using q(1) by (simp add: to_int64_def trunc_def)
qed

lemma to_int64_scale_down:
  assumes "0 < p" "0 \<le> x" "x < 2 ^ 63" "0 \<le> c" "c * (1 + 1 / 2 ^ p) ^ 2 \<le> 1"
  shows "0 \<le> to_int64 (fl p (fl p (of_int x) * c))"
    and "to_int64 (fl p (fl p (of_int x) * c)) \<le> x"
proof -
  let ?q = "fl p (fl p (of_int x) * c)"
  have x0: "(0::rat) \<le> of_int x" using assms(2) by simp
  have q0: "0 \<le> ?q" using fl_mul_bounds(1)[OF assms(1) x0 assms(4)] .
  have "?q \<le> of_int x * c * (1 + 1 / 2 ^ p) ^ 2" using fl_mul_bounds(2)[OF assms(1) x0 assms(4)] .
  also have "\<dots> = of_int x * (c * (1 + 1 / 2 ^ p) ^ 2)" by simp
  also have "\<dots> \<le> of_int x * 1" using assms(5) x0 by (intro mult_left_mono) auto
  finally have qx: "?q \<le> of_int x" by simp
  also have "(of_int x :: rat) < 2 ^ 63" using assms(3) by (metis of_int_less_iff of_int_numeral of_int_power)
  finally have "?q < 2 ^ 63" .
  with q0 have t: "to_int64 ?q = \<lfloor>?q\<rfloor>" by (rule to_int64_nonneg)
  show "0 \<le> to_int64 ?q" using q0 by (simp add: t)
  show "to_int64 ?q \<le> x" using qx by (simp add: t floor_le_iff)
qed

lemma to_int64_scale_up:
  assumes "0 < p" "0 \<le> x" "0 \<le> c" "of_int x * c * (1 + 1 / 2 ^ p) ^ 2 < 2 ^ 63"
  shows "0 \<le> to_int64 (fl p (fl p (of_int x) * c))"
proof -
  let ?q = "fl p (fl p (of_int x) * c)"
  have x0: "(0::rat) \<le> of_int x" using assms(2) by simp
  have q0: "0 \<le> ?q" using fl_mul_bounds(1)[OF assms(1) x0 assms(3)] .
  have "?q \<le> of_int x * c * (1 + 1 / 2 ^ p) ^ 2" using fl_mul_bounds(2)[OF assms(1) x0 assms(3)] .
  also note assms(4)
  finally have "?q < 2 ^ 63" .
  with q0 have t: "to_int64 ?q = \<lfloor>?q\<rfloor>" by (rule to_int64_nonneg)
  show ?thesis using q0 by (simp add: t)
qed

section \<open>The Hysteria sender: invariant\<close>

lemma f64_scale_down:
  assumes "0 \<le> x" "x < 2 ^ 63" "0 \<le> c" "c * (1 + 1 / 2 ^ 53) ^ 2 \<le> 1"
  shows "0 \<le> to_int64 (f64mul (f64 x) c)" and "to_int64 (f64mul (f64 x) c) \<le> x"
  unfolding f64mul_def f64_def
  using to_int64_scale_down[of 53 x c] assms by simp_all

lemma f64_scale_up:
  assumes "0 \<le> x" "x < 2 ^ 60" "0 \<le> c" "c * (1 + 1 / 2 ^ 53) ^ 2 \<le> 2"
  shows "0 \<le> to_int64 (f64mul (f64 x) c)"
proof -
  have "(of_int x :: rat) \<le> 2 ^ 60" using assms(2)
    by (metis less_imp_le of_int_le_iff of_int_numeral of_int_power)
  then have "of_int x * (c * (1 + 1 / 2 ^ 53) ^ 2) \<le> 2 ^ 60 * (2 :: rat)"
    using assms(1,3,4) by (intro mult_mono) auto
  then have "of_int x * c * (1 + 1 / 2 ^ 53) ^ 2 < (2 :: rat) ^ 63" by (simp add: mult.assoc)
  then show ?thesis unfolding f64mul_def f64_def
    using to_int64_scale_up[of 53 x c] assms(1,3) by simp
qed

lemma hysteria_target:
  assumes "0 < m" "m < 2 ^ 43"
  shows "quot64 (mul64 (mul64 m 1024) 1024) 8 = m * 131072"
proof -
  have a: "mul64 m 1024 = m * 1024" unfolding mul64_def using assms by (intro i64_id; simp)
  have b: "mul64 (m * 1024) 1024 = m * 1048576" unfolding mul64_def
    using assms by (subst i64_id; simp)
  have "quot64 (m * 1048576) 8 = (m * 1048576) div 8"
    using assms by (intro quot64_nonneg; simp)
  also have "\<dots> = m * 131072" by simp
  finally show ?thesis by (simp add: a b)
qed

lemma f64c_small:
  "0 \<le> f64c (6 / 10) \<and> f64c (6 / 10) * (1 + 1 / 2 ^ 53) ^ 2 \<le> 1"
  "0 \<le> f64c (7 / 10) \<and> f64c (7 / 10) * (1 + 1 / 2 ^ 53) ^ 2 \<le> 1"
  "0 \<le> f64c (75 / 100) \<and> f64c (75 / 100) * (1 + 1 / 2 ^ 53) ^ 2 \<le> 1"
  "0 \<le> f64c (85 / 100) \<and> f64c (85 / 100) * (1 + 1 / 2 ^ 53) ^ 2 \<le> 1"
  "0 \<le> f64c (11 / 10) \<and> f64c (11 / 10) * (1 + 1 / 2 ^ 53) ^ 2 \<le> 2"
  "0 \<le> f64c (125 / 100) \<and> f64c (125 / 100) * (1 + 1 / 2 ^ 53) ^ 2 \<le> 2"
  unfolding f64c_06 f64c_07 f64c_075 f64c_085 f64c_11 f64c_125
  by (simp_all add: power2_eq_square)

lemma hysteria_initial_le:
  assumes "0 < m" "m < 2 ^ 43"
  shows "0 \<le> to_int64 (f64mul (f64 (m * 131072)) (f64c (6 / 10)))"
    and "to_int64 (f64mul (f64 (m * 131072)) (f64c (6 / 10))) \<le> m * 131072"
proof -
  have r: "0 \<le> m * 131072" "m * 131072 < 2 ^ 63" using assms by simp_all
  show "0 \<le> to_int64 (f64mul (f64 (m * 131072)) (f64c (6 / 10)))"
    using f64_scale_down(1)[OF r] f64c_small(1) by blast
  show "to_int64 (f64mul (f64 (m * 131072)) (f64c (6 / 10))) \<le> m * 131072"
    using f64_scale_down(2)[OF r] f64c_small(1) by blast
qed

lemma hysteria_inv_New:
  assumes "mbps < 2 ^ 43"
  shows "hysteria_inv (NewHysteriaSender rtt mds mbps now)"
proof -
  define m where "m = (if mbps \<le> 0 then 10 else mbps)"
  have m: "0 < m" "m < 2 ^ 43" using assms by (auto simp: m_def)
  note t = hysteria_target[OF m]
  note i = hysteria_initial_le[OF m]
  show ?thesis
    unfolding NewHysteriaSender_def hysteria_inv_def Let_def m_def[symmetric] t
    using m i by (simp add: minStartBps_def rttWindowSize_def)
qed

lemma scale_085:
  assumes "0 \<le> x" "x < 2 ^ 63"
  shows "0 \<le> to_int64 (f64mul (f64 x) (f64c (85 / 100))) \<and> to_int64 (f64mul (f64 x) (f64c (85 / 100))) \<le> x"
  using f64_scale_down[OF assms] f64c_small(4) by blast

lemma scale_075:
  assumes "0 \<le> x" "x < 2 ^ 63"
  shows "0 \<le> to_int64 (f64mul (f64 x) (f64c (75 / 100))) \<and> to_int64 (f64mul (f64 x) (f64c (75 / 100))) \<le> x"
  using f64_scale_down[OF assms] f64c_small(3) by blast

lemma scale_07:
  assumes "0 \<le> x" "x < 2 ^ 63"
  shows "0 \<le> to_int64 (f64mul (f64 x) (f64c (7 / 10))) \<and> to_int64 (f64mul (f64 x) (f64c (7 / 10))) \<le> x"
  using f64_scale_down[OF assms] f64c_small(2) by blast

lemma grow_nonneg:
  assumes "0 \<le> x" "x < 2 ^ 60"
  shows "0 \<le> to_int64 (f64mul (f64 x) (f64c (125 / 100)))"
    and "0 \<le> to_int64 (f64mul (f64 x) (f64c (11 / 10)))"
  using f64_scale_up[OF assms] f64c_small(5,6) by blast+

lemma rttIdx_next:
  assumes "0 \<le> i" "i < 10"
  shows "0 \<le> rem64 (add64 i 1) 10 \<and> rem64 (add64 i 1) 10 < 10"
proof -
  have "add64 i 1 = i + 1" unfolding add64_def using assms by (intro i64_id; simp)
  moreover have "sgn (i + 1) = 1" using assms by simp
  ultimately show ?thesis by (simp add: rem64_def)
qed

lemma jitter_inv:
  assumes "hysteria_inv h"
  shows "\<exists>h1. updateRTTAndCheckJitter h = Inr h1 \<and> hysteria_inv h1
            \<and> targetBps h1 = targetBps h \<and> rttCount h1 = rttCount h
            \<and> h_rttStats h1 = h_rttStats h"
proof -
  have c: "0 \<le> currentBps h" "currentBps h < 2 ^ 63" using assms by (auto simp: hysteria_inv_def)
  note s = scale_085[OF c]
  have i: "0 \<le> rttIdx h" "rttIdx h < 10" using assms by (auto simp: hysteria_inv_def rttWindowSize_def)
  note n = rttIdx_next[OF i]
  show ?thesis
    using assms s n
    unfolding updateRTTAndCheckJitter_def Let_def hysteria_inv_def rttWindowSize_def
    by (auto simp: minStartBps_def)
qed

lemma acked_effect:
  assumes "hysteria_inv h"
  shows "\<exists>h1 h'. updateRTTAndCheckJitter h = Inr h1
           \<and> hysteriaSender_OnPacketAcked h pn a f t = Inr h'
           \<and> hysteria_inv h'
           \<and> rttCount h' = (if rttCount h + 1 = 4 then 0 else rttCount h + 1)
           \<and> currentBps h' =
               (if rttCount h + 1 = 4 \<and> currentBps h1 < targetBps h
                then min (targetBps h)
                       (to_int64 (f64mul (f64 (currentBps h1))
                          (if SmoothedRTT (h_rttStats h) > 150 * Millisecond
                           then f64c (125 / 100) else f64c (11 / 10))))
                else currentBps h1)"
proof -
  from jitter_inv[OF assms] obtain h1 where h1: "updateRTTAndCheckJitter h = Inr h1"
    "hysteria_inv h1" "targetBps h1 = targetBps h" "rttCount h1 = rttCount h"
    "h_rttStats h1 = h_rttStats h" by blast
  have r: "- 2 \<le> rttCount h" "rttCount h \<le> 3" using assms by (auto simp: hysteria_inv_def)
  have a1: "add64 (rttCount h) 1 = rttCount h + 1" unfolding add64_def using r by (intro i64_id; simp)
  have c: "0 \<le> currentBps h1" "currentBps h1 < 2 ^ 60" using h1(2) by (auto simp: hysteria_inv_def)
  note g = grow_nonneg[OF c]
  show ?thesis
    using h1 r g
    unfolding hysteriaSender_OnPacketAcked_def Let_def
    by (auto simp: a1 hysteria_inv_def)
qed

lemma congestion_inv:
  assumes "hysteria_inv h"
  shows "hysteria_inv (hysteriaSender_OnCongestionEvent h pn l f)"
proof -
  have c: "0 \<le> stableBps h" "stableBps h < 2 ^ 63" using assms by (auto simp: hysteria_inv_def)
  note s = scale_075[OF c]
  show ?thesis using assms s
    unfolding hysteriaSender_OnCongestionEvent_def Let_def hysteria_inv_def
    by auto
qed

lemma sent_inv:
  assumes "hysteria_inv h" "hysteriaSender_OnPacketSent h t f pn b r now = Inr h'"
  shows "hysteria_inv h'"
  using assms unfolding hysteriaSender_OnPacketSent_def Let_def hysteria_inv_def
  by (auto split: if_splits)

lemma hysteria_step_inv:
  assumes "hysteria_inv h" "hysteria_step h c = Inr h'"
  shows "hysteria_inv h'"
proof (cases c)
  case (H_OnPacketSent t f pn b r now)
  with assms show ?thesis by (auto intro: sent_inv)
next
  case (H_OnPacketAcked pn a f t)
  with assms acked_effect[OF assms(1), of pn a f t] show ?thesis by auto
next
  case (H_OnCongestionEvent pn l f)
  with assms congestion_inv[OF assms(1)] show ?thesis by auto
next
  case (H_OnRetransmissionTimeout b)
  with assms show ?thesis
    by (auto simp: hysteriaSender_OnRetransmissionTimeout_def hysteria_inv_def minStartBps_def)
next
  case H_MaybeExitSlowStart
  with assms show ?thesis by (auto simp: hysteriaSender_MaybeExitSlowStart_def)
next
  case (H_SetMaxDatagramSize s)
  with assms show ?thesis by (auto simp: hysteriaSender_SetMaxDatagramSize_def hysteria_inv_def)
next
  case (H_RTTUpdate r)
  with assms show ?thesis by (auto simp: hysteria_inv_def)
qed

lemma hysteria_run_inv:
  "hysteria_inv h \<Longrightarrow> hysteria_run h cs = Inr h' \<Longrightarrow> hysteria_inv h'"
proof (induction cs arbitrary: h)
  case Nil
  then show ?case by simp
next
  case (Cons c cs)
  then show ?case by (auto split: sum.splits dest: hysteria_step_inv)
qed

lemma initial_exhaustive:
  "list_all (\<lambda>a. list_all (\<lambda>b.
       \<lfloor>fl 53 (fl 53 (of_int ((10 * a + b) * 131072)) * (5404319552844595 / 9007199254740992))\<rfloor>
         = (6 * ((10 * a + b) * 131072)) div 10)
     [1, 2, 3, 4, 5, 6, 7, 8, 9, 10]) [0, 1, 2, 3, 4, 5, 6, 7, 8, 9]"
  by (simp add: fl_eval)

lemma digit_mem:
  "0 \<le> a \<Longrightarrow> a \<le> 9 \<Longrightarrow> a \<in> set [0, 1, 2, 3, 4, 5, 6, 7, 8, 9 :: int]"
  "1 \<le> b \<Longrightarrow> b \<le> 10 \<Longrightarrow> b \<in> set [1, 2, 3, 4, 5, 6, 7, 8, 9, 10 :: int]"
  by (simp_all, arith+)

lemma initial_formula:
  assumes "1 \<le> m" "m \<le> 100"
  shows "to_int64 (f64mul (f64 (m * 131072)) (f64c (6 / 10))) = (6 * (m * 131072)) div 10"
proof -
  define a where "a = (m - 1) div 10"
  define b where "b = (m - 1) mod 10 + 1"
  have m: "m = 10 * a + b" by (simp add: a_def b_def)
  have "0 \<le> a" "a \<le> 9" using assms by (simp_all add: a_def)
  then have ma: "a \<in> set [0, 1, 2, 3, 4, 5, 6, 7, 8, 9 :: int]" by (rule digit_mem(1))
  have "1 \<le> b" "b \<le> 10" by (simp_all add: b_def)
  then have mb: "b \<in> set [1, 2, 3, 4, 5, 6, 7, 8, 9, 10 :: int]" by (rule digit_mem(2))
  note row = bspec[OF initial_exhaustive[unfolded list_all_iff] ma]
  have fl: "\<lfloor>fl 53 (fl 53 (of_int (m * 131072)) * (5404319552844595 / 9007199254740992))\<rfloor> = (6 * (m * 131072)) div 10"
    unfolding m by (rule bspec[OF row mb])
  have r: "0 \<le> m * 131072" "m * 131072 < 2 ^ 63" using assms by simp_all
  have q: "0 \<le> f64mul (f64 (m * 131072)) (f64c (6 / 10))"
    unfolding f64mul_def f64_def f64c_06
    by (intro fl_nonneg mult_nonneg_nonneg) (use r in simp_all)
  have "f64mul (f64 (m * 131072)) (f64c (6 / 10)) \<le> of_int (m * 131072) * (f64c (6 / 10)) * (1 + 1 / 2 ^ 53) ^ 2"
    unfolding f64mul_def f64_def
    using fl_mul_bounds(2)[of 53 "of_int (m * 131072)" "f64c (6 / 10)"] r f64c_small(1) by simp
  also have "\<dots> = of_int (m * 131072) * (f64c (6 / 10) * (1 + 1 / 2 ^ 53) ^ 2)" by simp
  also have "\<dots> \<le> of_int (m * 131072) * 1"
    using f64c_small(1) r by (intro mult_left_mono) auto
  also have "\<dots> < 2 ^ 63" using r(2) by (metis mult.right_neutral of_int_less_iff of_int_numeral of_int_power)
  finally have "to_int64 (f64mul (f64 (m * 131072)) (f64c (6 / 10))) = \<lfloor>f64mul (f64 (m * 131072)) (f64c (6 / 10))\<rfloor>"
    using q by (intro to_int64_nonneg)
  then show ?thesis unfolding f64mul_def f64_def f64c_06 using fl by simp
qed

section \<open>The Hysteria sender: initial rates\<close>



section \<open>The Hysteria sender: the rate and its target\<close>

text \<open>
  C7. Take a sender built by \<open>NewHysteriaSender\<close> from a bandwidth below \<open>2 ^ 43\<close> Mbps
  and any run of calls that does not panic. The current rate is then at most the target
  rate. Moreover the next \<^verbatim>\<open>OnPacketAcked\<close> returns; with \<open>h1\<close> the sender after its jitter
  check, it leaves \<open>rttCount + 1\<close> in the counter unless that is 4, when it leaves 0 and,
  if the rate of \<open>h1\<close> is below the target, multiplies that rate by 1.25 when the smoothed
  RTT is above 150 ms and by 1.1 otherwise (in \<^verbatim>\<open>float64\<close>, truncated) and clamps it to the
  target; in every other case the rate of \<open>h1\<close> stays.
\<close>

theorem hysteria_rate_at_most_target:
  assumes "mbps < 2 ^ 43"
    and "hysteria_run (NewHysteriaSender rtt mds mbps now) calls = Inr h"
  shows "currentBps h \<le> targetBps h
       \<and> (\<exists>h1 h'. updateRTTAndCheckJitter h = Inr h1
             \<and> hysteriaSender_OnPacketAcked h pn acked inFlight t = Inr h'
             \<and> currentBps h' \<le> targetBps h'
             \<and> rttCount h' = (if rttCount h + 1 = 4 then 0 else rttCount h + 1)
             \<and> currentBps h' =
                 (if rttCount h + 1 = 4 \<and> currentBps h1 < targetBps h
                  then min (targetBps h)
                         (to_int64 (f64mul (f64 (currentBps h1))
                            (if SmoothedRTT (h_rttStats h) > 150 * Millisecond
                             then f64c (125 / 100) else f64c (11 / 10))))
                  else currentBps h1))"
proof -
  have inv: "hysteria_inv h"
    using hysteria_run_inv[OF hysteria_inv_New[OF assms(1)] assms(2)] .
  from acked_effect[OF inv, of pn acked inFlight t] obtain h1 h' where
    e: "updateRTTAndCheckJitter h = Inr h1"
       "hysteriaSender_OnPacketAcked h pn acked inFlight t = Inr h'"
       "hysteria_inv h'"
       "rttCount h' = (if rttCount h + 1 = 4 then 0 else rttCount h + 1)"
       "currentBps h' =
          (if rttCount h + 1 = 4 \<and> currentBps h1 < targetBps h
           then min (targetBps h)
                  (to_int64 (f64mul (f64 (currentBps h1))
                     (if SmoothedRTT (h_rttStats h) > 150 * Millisecond
                      then f64c (125 / 100) else f64c (11 / 10))))
           else currentBps h1)"
    by blast
  have "currentBps h \<le> targetBps h" using inv by (simp add: hysteria_inv_def)
  moreover have "currentBps h' \<le> targetBps h'" using e(3) by (simp add: hysteria_inv_def)
  ultimately show ?thesis using e(1,2,4,5) by blast
qed

lemma NewHysteriaSender_50:
  "NewHysteriaSender rtt mds 50 now =
     \<lparr> h_rttStats = rtt, targetBps = 6553600, currentBps = 3932160, stableBps = 3932160,
       maxDatagram = mds, nextSendTime = add64 now (- 100 * Millisecond),
       rttHistory = replicate (nat rttWindowSize) 0, rttIdx = 0, maxRTT = 0, rttCount = 0 \<rparr>"
  unfolding NewHysteriaSender_def Let_def
  using hysteria_target[of 50] initial_formula[of 50]
  by (simp add: minStartBps_def)

lemma NewHysteriaSender_1:
  "NewHysteriaSender rtt mds 1 now =
     \<lparr> h_rttStats = rtt, targetBps = 131072, currentBps = 131072, stableBps = 131072,
       maxDatagram = mds, nextSendTime = add64 now (- 100 * Millisecond),
       rttHistory = replicate (nat rttWindowSize) 0, rttIdx = 0, maxRTT = 0, rttCount = 0 \<rparr>"
  unfolding NewHysteriaSender_def Let_def
  using hysteria_target[of 1] initial_formula[of 1]
  by (simp add: minStartBps_def)

lemma loss_1000_of_1000: "lossRateExceeds 1000 (add64 1000 1) (f64c (10 / 100))"
  by (simp add: lossRateExceeds_def add64_def i64_def f64div_def f64_def f64c_def fl_eval)

lemma three_quarters_of_minStartBps: "to_int64 (f64mul (f64 131072) (f64c (75 / 100))) = 98304"
  by (simp add: f64mul_def f64_def f64c_def to_int64_def trunc_def fl_eval)

theorem hysteria_rate_at_most_target_witness:
  "(50 :: int) < 2 ^ 43
   \<and> (let rtt = \<lparr>SmoothedRTT = 200000000, LatestRTT = 200000000, MinRTT = 200000000\<rparr>;
           h = hysteriaSender_OnRetransmissionTimeout (NewHysteriaSender rtt 1200 50 0) True
       in hysteria_run (NewHysteriaSender rtt 1200 50 0) [H_OnRetransmissionTimeout True] = Inr h
        \<and> currentBps h = 131072 \<and> targetBps h = 6553600
        \<and> currentBps h \<le> targetBps h
        \<and> (\<exists>h1 h'. updateRTTAndCheckJitter h = Inr h1
              \<and> hysteriaSender_OnPacketAcked h 1 1200 0 0 = Inr h'
              \<and> currentBps h' \<le> targetBps h'
              \<and> rttCount h' = (if rttCount h + 1 = 4 then 0 else rttCount h + 1)
              \<and> currentBps h' =
                  (if rttCount h + 1 = 4 \<and> currentBps h1 < targetBps h
                   then min (targetBps h)
                          (to_int64 (f64mul (f64 (currentBps h1))
                             (if SmoothedRTT (h_rttStats h) > 150 * Millisecond
                              then f64c (125 / 100) else f64c (11 / 10))))
                   else currentBps h1)))"
proof -
  define rtt where "rtt = \<lparr>SmoothedRTT = 200000000, LatestRTT = 200000000, MinRTT = 200000000\<rparr>"
  define h where "h = hysteriaSender_OnRetransmissionTimeout (NewHysteriaSender rtt 1200 50 0) True"
  have run: "hysteria_run (NewHysteriaSender rtt 1200 50 0) [H_OnRetransmissionTimeout True] = Inr h"
    by (simp add: h_def)
  have v: "currentBps h = 131072" "targetBps h = 6553600"
    unfolding h_def NewHysteriaSender_50 hysteriaSender_OnRetransmissionTimeout_def
    by (simp_all add: minStartBps_def)
  have b: "(50 :: int) < 2 ^ 43" by simp
  note th = hysteria_rate_at_most_target[OF b run, of 1 1200 0 0]
  show ?thesis
    unfolding Let_def rtt_def[symmetric] h_def[symmetric]
    using b run v th by blast
qed

section \<open>The Hysteria sender: the loss penalty and the 1 Mbps line\<close>

text \<open>
  C2. The loss penalty does not keep the rate at or above \<open>minStartBps\<close>: a sender
  built for 1 Mbps starts at \<open>minStartBps = 131072\<close>, and one \<^verbatim>\<open>OnCongestionEvent\<close> that
  loses 1000 of 1000 bytes in flight leaves \<open>currentBps = 98304\<close>, three quarters of the
  stable rate, with nothing raising it back: the jitter check, the constructor and
  the timeout handler are the places that enforce the line.
\<close>

theorem hysteria_penalty_below_minStartBps:
  "hysteria_run (NewHysteriaSender \<lparr>SmoothedRTT = 0, LatestRTT = 0, MinRTT = 0\<rparr> 1200 1 0)
     [H_OnCongestionEvent 7 1000 1000]
   = Inr ((NewHysteriaSender \<lparr>SmoothedRTT = 0, LatestRTT = 0, MinRTT = 0\<rparr> 1200 1 0)
            \<lparr>currentBps := 98304, rttCount := - 2\<rparr>)
   \<and> currentBps (NewHysteriaSender \<lparr>SmoothedRTT = 0, LatestRTT = 0, MinRTT = 0\<rparr> 1200 1 0) = minStartBps
   \<and> (98304 :: int) < minStartBps"
  unfolding NewHysteriaSender_1
  using loss_1000_of_1000 three_quarters_of_minStartBps
  by (simp add: hysteriaSender_OnCongestionEvent_def minStartBps_def Millisecond_def)

section \<open>The CUBIC sender: the datagram size\<close>

lemma mul64_2: "- (2 ^ 62) \<le> x \<Longrightarrow> x < 2 ^ 62 \<Longrightarrow> mul64 x 2 = 2 * x"
  unfolding mul64_def by (subst i64_id; simp)


text \<open>
  C10. For \<open>s\<close> at or above the current datagram size, \<^verbatim>\<open>SetMaxDatagramSize(s)\<close> changes
  the datagram size to \<open>s\<close>, hands \<open>s\<close> to the pacer, and sets the window to the new
  minimum window when it was equal to the old one; the window is unchanged otherwise and
  so is every other field. For datagram sizes from 0 to below \<open>2 ^ 62\<close> the old and the
  new minimum window are \<open>2 * d\<close> and \<open>2 * s\<close>.
\<close>

theorem SetMaxDatagramSize_frame:
  assumes "maxDatagramSize c \<le> s"
  shows "SetMaxDatagramSize D c s =
           Inr (c\<lparr> maxDatagramSize := s,
                    congestionWindow :=
                      (if congestionWindow c = minCongestionWindow c
                       then minCongestionWindow (c\<lparr>maxDatagramSize := s\<rparr>)
                       else congestionWindow c),
                    pacer := pacer_SetMaxDatagramSize D (pacer c) s \<rparr>)
         \<and> (0 \<le> maxDatagramSize c \<and> s < 2 ^ 62 \<longrightarrow>
              minCongestionWindow c = 2 * maxDatagramSize c
              \<and> minCongestionWindow (c\<lparr>maxDatagramSize := s\<rparr>) = 2 * s)"
  using assms
  by (auto simp: SetMaxDatagramSize_def Let_def minCongestionWindow_def minCongestionWindowPackets_def mul64_2)

section \<open>The CUBIC sender: the minimum-rate window\<close>

lemmas f64_eval = f64_def f64c_def f64add_def f64mul_def f64div_def to_int64_def trunc_def fl_eval

lemma Seconds_below_1s:
  assumes "0 \<le> d" "d < 1000000000"
  shows "Seconds d = f64add 0 (f64div (f64 d) (f64c 1000000000))"
proof -
  have q: "quot64 d Second = 0" using assms by (simp add: quot64_def Second_def i64_def)
  have r: "rem64 d Second = d" using assms by (cases "d = 0") (simp_all add: rem64_def Second_def)
  have z: "f64 0 = 0" by (simp add: f64_def fl_def)
  show ?thesis unfolding Seconds_def q r z ..
qed


lemma Seconds_1ms: "Seconds 1000000 = 1152921504606847 / 1152921504606846976"
  by (subst Seconds_below_1s) (simp_all add: f64_eval)

lemma Seconds_4ms: "Seconds 4000000 = 1152921504606847 / 288230376151711744"
  by (subst Seconds_below_1s) (simp_all add: f64_eval)

lemma Seconds_20s: "Seconds 20000000000 = 20"
proof -
  have q: "quot64 20000000000 Second = 20" by (simp add: quot64_def Second_def i64_def)
  have r: "rem64 20000000000 Second = 0" by (simp add: rem64_def Second_def)
  show ?thesis unfolding Seconds_def q r by (simp add: f64_eval)
qed


lemma minRateCwnd_1ms: "minRateCwnd 1000000 = 655"
  unfolding minRateCwnd_def Let_def
  by (simp add: Seconds_1ms minBandwidthLimit_def f64_eval)

lemma minRateCwnd_4ms: "minRateCwnd 4000000 = 2621"
  unfolding minRateCwnd_def Let_def
  by (simp add: Seconds_4ms minBandwidthLimit_def f64_eval)

lemma minRateCwnd_20s: "minRateCwnd 20000000000 = 13107200"
  unfolding minRateCwnd_def Let_def
  by (simp add: Seconds_20s minBandwidthLimit_def f64_eval)

section \<open>The CUBIC sender: retransmission timeout\<close>

lemma quot64_2: "0 \<le> x \<Longrightarrow> x < 2 ^ 63 \<Longrightarrow> quot64 x 2 = x div 2"
  by (rule quot64_nonneg) simp_all


lemmas cubic_defs =
  NewCubicSender_def newCubicSender_def NewCubic_def Cubic_Reset_def defaultNumConnections_def
  const_initialCongestionWindow_def minCongestionWindowPackets_def maxBurstPackets_def
  maxCongestionWindow_def minCongestionWindow_def GetCongestionWindow_def InRecovery_def InSlowStart_def
  maybeQlogStateChange_def isCwndLimited_def maybeIncreaseCwnd_def OnPacketAcked_def
  applyMinRateProtection_def OnRetransmissionTimeout_def OnConnectionMigration_def
  SetMaxDatagramSize_def Cubic_OnApplicationLimited_def example_collab_def

lemmas int_eval = mul64_def add64_def sub64_def quot64_def i64_def u64_def

lemma example_new:
  "NewCubicSender example_collab rtt st 1200 isReno None =
     \<lparr> hybridSlowStart = (), rttStats = rtt, connStats = st, cubic = NewCubic, pacer = (),
       reno = isReno, largestSentPacketNumber = - 1, largestAckedPacketNumber = - 1,
       largestSentAtLastCutback = - 1, lastCutbackExitedSlowstart = False,
       congestionWindow = 38400, slowStartThreshold = 2 ^ 62 - 1, numAckedPackets = 0,
       initialCongestionWindow = 38400, initialMaxCongestionWindow = 12000000,
       maxDatagramSize = 1200, lastState = CongestionStateSlowStart, qlogger = None \<rparr>"
  by (simp add: NewCubicSender_def newCubicSender_def example_collab_def
        const_initialCongestionWindow_def int_eval)

lemma example_rto_1ms:
  "OnRetransmissionTimeout example_collab
     (NewCubicSender example_collab \<lparr>SmoothedRTT = 1000000, LatestRTT = 1000000, MinRTT = 1000000\<rparr> st 1200 isReno None) True =
     \<lparr> hybridSlowStart = (), rttStats = \<lparr>SmoothedRTT = 1000000, LatestRTT = 1000000, MinRTT = 1000000\<rparr>,
       connStats = st, cubic = NewCubic, pacer = (),
       reno = isReno, largestSentPacketNumber = - 1, largestAckedPacketNumber = - 1,
       largestSentAtLastCutback = - 1, lastCutbackExitedSlowstart = False,
       congestionWindow = 2400, slowStartThreshold = 19200, numAckedPackets = 0,
       initialCongestionWindow = 38400, initialMaxCongestionWindow = 12000000,
       maxDatagramSize = 1200, lastState = CongestionStateSlowStart, qlogger = None \<rparr>"
  unfolding example_new
  by (simp add: OnRetransmissionTimeout_def applyMinRateProtection_def Let_def minRateCwnd_1ms
        minCongestionWindow_def minCongestionWindowPackets_def example_collab_def
        NewCubic_def Cubic_Reset_def int_eval)

text \<open>
  C9 as stated fails for a window of at most three datagrams: after a retransmission
  timeout (smoothed RTT 1 ms) the window is 2400 bytes, the sender is not in recovery,
  and an ack with nothing in flight counts as window limited and grows the window to
  3600 bytes.
\<close>

theorem ack_with_nothing_in_flight_grows_small_window:
  "let D = example_collab;
       c = OnRetransmissionTimeout D
             (NewCubicSender D \<lparr>SmoothedRTT = 1000000, LatestRTT = 1000000, MinRTT = 1000000\<rparr>
                \<lparr>BytesSent = 0, BytesLost = 0, PacketsLost = 0\<rparr> 1200 False None) True
   in congestionWindow c = 2400 \<and> \<not> InRecovery D c
      \<and> OnPacketAcked D c 1 1200 0 0 = Inr (c\<lparr>largestAckedPacketNumber := 1, congestionWindow := 3600\<rparr>)"
  unfolding Let_def example_rto_1ms
  by (simp add: OnPacketAcked_def maybeIncreaseCwnd_def isCwndLimited_def InRecovery_def InSlowStart_def
        GetCongestionWindow_def maxCongestionWindow_def maybeQlogStateChange_def maxBurstPackets_def
        example_collab_def int_eval)

section \<open>The CUBIC sender: an ack with nothing in flight\<close>

lemma not_cwnd_limited_idle:
  assumes "0 \<le> maxDatagramSize c" "3 * maxDatagramSize c < congestionWindow c" "congestionWindow c < 2 ^ 63"
  shows "\<not> isCwndLimited c 0"
proof -
  have w: "0 < congestionWindow c" using assms by simp
  have s: "sub64 (congestionWindow c) 0 = congestionWindow c"
    unfolding sub64_def using w assms(3) by (subst i64_id; simp)
  have m: "mul64 3 (maxDatagramSize c) = 3 * maxDatagramSize c"
    unfolding mul64_def using assms by (subst i64_id; simp)
  have q: "0 \<le> quot64 (congestionWindow c) 2"
    using quot64_2[of "congestionWindow c"] w assms(3) by simp
  show ?thesis
    using w q assms(2)
    by (simp add: isCwndLimited_def Let_def GetCongestionWindow_def maxBurstPackets_def s m)
qed

text \<open>
  C9, amended. Take an ack with nothing in flight before it that does not find the sender
  in recovery once the ack is recorded, and a window of more than \<open>maxBurstPackets = 3\<close>
  datagrams. \<^verbatim>\<open>OnPacketAcked\<close> then tells the curve that the sender is application
  limited (the epoch is cleared), reports that state to the recorder if there is one, and
  leaves the window as it is.
\<close>

theorem ack_with_nothing_in_flight_is_application_limited:
  assumes "\<not> InRecovery D (c\<lparr>largestAckedPacketNumber := max pn (largestAckedPacketNumber c)\<rparr>)"
    and "0 \<le> maxDatagramSize c"
    and "3 * maxDatagramSize c < congestionWindow c"
    and "congestionWindow c < 2 ^ 63"
  shows "\<exists>c'. OnPacketAcked D c pn acked 0 t = Inr c'
           \<and> congestionWindow c' = congestionWindow c
           \<and> cubic c' = Cubic_OnApplicationLimited (cubic c)
           \<and> epoch (cubic c') = 0
           \<and> (case qlogger c of
                 None \<Rightarrow> qlogger c' = None \<and> lastState c' = lastState c
               | Some evs \<Rightarrow>
                   lastState c' = CongestionStateApplicationLimited
                   \<and> qlogger c' = Some (if lastState c = CongestionStateApplicationLimited then evs
                                        else evs @ [CongestionStateApplicationLimited]))"
proof -
  let ?c = "c\<lparr>largestAckedPacketNumber := max pn (largestAckedPacketNumber c)\<rparr>"
  have "\<not> isCwndLimited ?c 0"
    using not_cwnd_limited_idle[of ?c] assms(2-4) by simp
  then show ?thesis
    using assms(1)
    by (auto simp: OnPacketAcked_def maybeIncreaseCwnd_def Let_def maybeQlogStateChange_def
          Cubic_OnApplicationLimited_def InSlowStart_def GetCongestionWindow_def
          split: option.splits)
qed

theorem ack_with_nothing_in_flight_is_application_limited_witness:
  "let D = example_collab;
       c = NewCubicSender D \<lparr>SmoothedRTT = 1000000, LatestRTT = 1000000, MinRTT = 1000000\<rparr>
             \<lparr>BytesSent = 0, BytesLost = 0, PacketsLost = 0\<rparr> 1200 False None
   in \<not> InRecovery D (c\<lparr>largestAckedPacketNumber := max 1 (largestAckedPacketNumber c)\<rparr>)
      \<and> 0 \<le> maxDatagramSize c \<and> 3 * maxDatagramSize c < congestionWindow c
      \<and> congestionWindow c < 2 ^ 63
      \<and> congestionWindow c = 38400
      \<and> (\<exists>c'. OnPacketAcked D c 1 1200 0 0 = Inr c'
             \<and> congestionWindow c' = 38400
             \<and> epoch (cubic c') = 0)"
proof -
  define D where "D = example_collab"
  define c where "c = NewCubicSender D \<lparr>SmoothedRTT = 1000000, LatestRTT = 1000000, MinRTT = 1000000\<rparr>
             \<lparr>BytesSent = 0, BytesLost = 0, PacketsLost = 0\<rparr> 1200 False None"
  have v: "congestionWindow c = 38400" "maxDatagramSize c = 1200" "largestAckedPacketNumber c = - 1"
    "largestSentAtLastCutback c = - 1"
    unfolding c_def D_def example_new by simp_all
  have h: "\<not> InRecovery D (c\<lparr>largestAckedPacketNumber := max 1 (largestAckedPacketNumber c)\<rparr>)"
    "0 \<le> maxDatagramSize c" "3 * maxDatagramSize c < congestionWindow c" "congestionWindow c < 2 ^ 63"
    by (simp_all add: InRecovery_def v)
  from ack_with_nothing_in_flight_is_application_limited[OF h, of 1200 0]
  show ?thesis unfolding Let_def D_def[symmetric] c_def[symmetric] using h v by auto
qed


theorem SetMaxDatagramSize_frame_witness:
  "let D = example_collab;
       c = OnRetransmissionTimeout D
             (NewCubicSender D \<lparr>SmoothedRTT = 1000000, LatestRTT = 1000000, MinRTT = 1000000\<rparr>
                \<lparr>BytesSent = 0, BytesLost = 0, PacketsLost = 0\<rparr> 1200 False None) True
   in maxDatagramSize c \<le> 1452 \<and> congestionWindow c = 2400 \<and> minCongestionWindow c = 2400
      \<and> SetMaxDatagramSize D c 1452 =
            Inr (c\<lparr>maxDatagramSize := 1452, congestionWindow := 2904,
                     pacer := pacer_SetMaxDatagramSize D (pacer c) 1452\<rparr>)"
proof -
  define D where "D = example_collab"
  define c where "c = OnRetransmissionTimeout D
             (NewCubicSender D \<lparr>SmoothedRTT = 1000000, LatestRTT = 1000000, MinRTT = 1000000\<rparr>
                \<lparr>BytesSent = 0, BytesLost = 0, PacketsLost = 0\<rparr> 1200 False None) True"
  have v: "maxDatagramSize c = 1200" "congestionWindow c = 2400"
    unfolding c_def D_def example_rto_1ms by simp_all
  have h: "maxDatagramSize c \<le> 1452" by (simp add: v)
  show ?thesis
    unfolding Let_def D_def[symmetric] c_def[symmetric]
    using SetMaxDatagramSize_frame[OF h, of D] v by simp
qed


end
